theory Spec2Isabelle
  imports Main "HOL-Library.Sublist" "HOL-Library.AList"
begin

section \<open>The trivia backend: request handlers of flaskr/__init__.py\<close>

text \<open>
  The handlers of \<^verbatim>\<open>create_app\<close> are embedded as functions from the request (and the
  tables) to an outcome. What a handler does besides returning is explicit:
  \<^item> \<^verbatim>\<open>abort(n)\<close> raises an HTTP exception: the outcome \<open>Abort n\<close>;
  \<^item> a Python exception is the outcome \<open>Raise e\<close>;
  \<^item> a bare \<^verbatim>\<open>except:\<close> catches both, so \<open>try_except\<close> turns both into its own abort;
  \<^item> handlers that commit return the new tables next to the outcome;
  \<^item> the application (\<open>dispatch\<close>) turns an outcome into the HTTP response, through the
    error handlers registered at the end of \<^verbatim>\<open>create_app\<close>.
\<close>

subsection \<open>JSON values and the Python operations the handlers apply to them\<close>

text \<open>
  The value of \<^verbatim>\<open>request.get_json()\<close>. An object is the dict Python has built: its keys
  are distinct, in insertion order. JSON numbers with a fraction are left out.
\<close>

datatype json =
    JNull
  | JBool bool
  | JInt int
  | JStr string
  | JList "json list"
  | JObj "(string \<times> json) list"

datatype exn = TypeError | AttributeError | KeyError | IndexError | ValueError | StoreError

text \<open>
  \<open>Unmodelled\<close> marks the requests whose result rests on something the sources do not
  settle (how Python prints a container, how the database coerces a bound value of
  another type). No theorem below is about them.
\<close>

datatype 'a outcome = Return 'a | Abort nat | Raise exn | Unmodelled

text \<open>\<^verbatim>\<open>try: ... except: abort(code)\<close>: the bare except catches an abort of the body too.\<close>

definition try_except :: "'a outcome \<Rightarrow> nat \<Rightarrow> 'a outcome" where
  "try_except body code =
     (case body of
        Return r \<Rightarrow> Return r
      | Abort n \<Rightarrow> Abort code
      | Raise e \<Rightarrow> Abort code
      | Unmodelled \<Rightarrow> Unmodelled)"

text \<open>Python's truth value of a JSON value (\<^verbatim>\<open>if not search_term\<close>, \<^verbatim>\<open>if quiz_category\<close>).\<close>

fun py_truthy :: "json \<Rightarrow> bool" where
  "py_truthy JNull = False"
| "py_truthy (JBool b) = b"
| "py_truthy (JInt n) = (n \<noteq> 0)"
| "py_truthy (JStr s) = (s \<noteq> [])"
| "py_truthy (JList xs) = (xs \<noteq> [])"
| "py_truthy (JObj kvs) = (kvs \<noteq> [])"

text \<open>\<^verbatim>\<open>field in data\<close>: key membership for a dict, element membership for a list,
  substring for a string, and a TypeError for None, a bool or a number.\<close>

fun py_in :: "string \<Rightarrow> json \<Rightarrow> exn + bool" where
  "py_in field (JObj kvs) = Inr (field \<in> set (map fst kvs))"
| "py_in field (JList xs) = Inr (JStr field \<in> set xs)"
| "py_in field (JStr s) = Inr (sublist field s)"
| "py_in field JNull = Inl TypeError"
| "py_in field (JBool b) = Inl TypeError"
| "py_in field (JInt n) = Inl TypeError"

text \<open>\<^verbatim>\<open>all(field in data for field in fields)\<close>: the generator stops at the first
  False, and an exception of a membership test leaves \<^verbatim>\<open>all\<close>.\<close>

fun py_all_in :: "string list \<Rightarrow> json \<Rightarrow> exn + bool" where
  "py_all_in [] data = Inr True"
| "py_all_in (field # fields) data =
     (case py_in field data of
        Inl e \<Rightarrow> Inl e
      | Inr False \<Rightarrow> Inr False
      | Inr True \<Rightarrow> py_all_in fields data)"

text \<open>\<^verbatim>\<open>data[key]\<close> with a string key.\<close>

fun py_getitem :: "json \<Rightarrow> string \<Rightarrow> exn + json" where
  "py_getitem (JObj kvs) key =
     (case map_of kvs key of None \<Rightarrow> Inl KeyError | Some v \<Rightarrow> Inr v)"
| "py_getitem j key = Inl TypeError"

text \<open>\<^verbatim>\<open>data.get(key, default)\<close>: only a dict has the method.\<close>

fun py_get :: "json \<Rightarrow> string \<Rightarrow> json \<Rightarrow> exn + json" where
  "py_get (JObj kvs) key dflt =
     Inr (case map_of kvs key of None \<Rightarrow> dflt | Some v \<Rightarrow> v)"
| "py_get j key dflt = Inl AttributeError"

text \<open>\<^verbatim>\<open>category_id == 0\<close>: Python's \<^verbatim>\<open>False == 0\<close> is true.\<close>

fun py_eq_zero :: "json \<Rightarrow> bool" where
  "py_eq_zero (JInt n) = (n = 0)"
| "py_eq_zero (JBool b) = (\<not> b)"
| "py_eq_zero j = False"

subsection \<open>Decimal rendering: \<^verbatim>\<open>str\<close> of an int\<close>

definition digit_char :: "nat \<Rightarrow> char" where
  "digit_char d = ''0123456789'' ! d"

function str_nat :: "nat \<Rightarrow> string" where
  "str_nat n = (if n < 10 then [digit_char n] else str_nat (n div 10) @ [digit_char (n mod 10)])"
  by pat_completeness auto
termination
  by (relation "measure (\<lambda>n. n)") auto

declare str_nat.simps [simp del]

definition str_int :: "int \<Rightarrow> string" where
  "str_int i = (if i < 0 then CHR ''-'' # str_nat (nat (- i)) else str_nat (nat i))"

text \<open>\<^verbatim>\<open>str(x)\<close> and the f-string's \<^verbatim>\<open>{x}\<close>, where the sources settle it: a container
  prints the \<^verbatim>\<open>repr\<close> of its elements, which is not modelled.\<close>

fun py_str :: "json \<Rightarrow> string option" where
  "py_str JNull = Some ''None''"
| "py_str (JBool b) = Some (if b then ''True'' else ''False'')"
| "py_str (JInt n) = Some (str_int n)"
| "py_str (JStr s) = Some s"
| "py_str (JList xs) = None"
| "py_str (JObj kvs) = None"

subsection \<open>The tables\<close>

text \<open>
  Modelled from the spec: models.py (the classes Category and Question, with
  \<^verbatim>\<open>query\<close>, \<^verbatim>\<open>insert\<close>, \<^verbatim>\<open>delete\<close> and \<^verbatim>\<open>format\<close>) is not among the sources. The
  columns are the data model's: a category is an id and a type; a question is an id, the
  question and answer texts, the category (an integer) and the difficulty (an integer).
\<close>

record category_row =
  c_id :: int
  c_type :: string

record question_row =
  q_id :: int
  q_question :: string
  q_answer :: string
  q_category :: int
  q_difficulty :: int

record store =
  questions :: "question_row list"
  categories :: "category_row list"

text \<open>Modelled from the spec: \<^verbatim>\<open>Question.format()\<close>, the serialization
  {id, question, answer, category, difficulty}.\<close>

definition format :: "question_row \<Rightarrow> json" where
  "format q =
     JObj [(''id'', JInt (q_id q)),
           (''question'', JStr (q_question q)),
           (''answer'', JStr (q_answer q)),
           (''category'', JInt (q_category q)),
           (''difficulty'', JInt (q_difficulty q))]"

text \<open>
  The store is PostgreSQL (the tests connect with a \<^verbatim>\<open>postgresql://\<close> URI, and expect
  a category that is not an integer to be refused). An integer column holds 32-bit
  values, and a string that is compared with it is read as such a value: the statement
  fails when the number does not fit. The OFFSET of a query is a 64-bit value. A text
  that holds the character NUL cannot be sent at all.
\<close>

definition int4 :: "int \<Rightarrow> bool" where
  "int4 n = (- 2147483648 \<le> n \<and> n \<le> 2147483647)"

definition BIGINT_MAX :: nat where
  "BIGINT_MAX = 9223372036854775807"

definition sendable :: "string \<Rightarrow> bool" where
  "sendable s = (CHR 0x00 \<notin> set s)"

text \<open>\<^verbatim>\<open>Question.query.get(id)\<close> and \<^verbatim>\<open>Category.query.get(id)\<close>: the row with that
  primary key, or None. The second takes a flag saying that the lookup itself fails
  (the store cannot be reached), since the view that makes it guards it with \<^verbatim>\<open>try\<close>.
  A query without \<^verbatim>\<open>order_by\<close> gives the rows in the order of the table.\<close>

definition Question_get :: "store \<Rightarrow> int \<Rightarrow> question_row option" where
  "Question_get st qid = find (\<lambda>q. q_id q = qid) (questions st)"

definition Category_get :: "bool \<Rightarrow> store \<Rightarrow> int \<Rightarrow> exn + category_row option" where
  "Category_get fails st cid =
     (if fails then Inl StoreError else Inr (find (\<lambda>c. c_id c = cid) (categories st)))"

text \<open>\<^verbatim>\<open>Question.category == str(category_id)\<close>: the column is compared with the string
  form of the id. (The views check \<open>int4\<close> of the id where they run the query.)\<close>

definition category_is :: "string \<Rightarrow> question_row \<Rightarrow> bool" where
  "category_is s q = (str_int (q_category q) = s)"

text \<open>
  Modelled from the spec: \<^verbatim>\<open>Question(...)\<close> keeps the four values as they came (nothing
  is type-checked by the handler), and \<^verbatim>\<open>insert()\<close> persists the row under a fresh id.
  The store rejects a value of the wrong type for its column (a category or difficulty
  that is not a number or does not fit the column, a text that is not a string or cannot
  be sent); \<open>fails\<close> stands for every other failure of the commit.
\<close>

record new_question =
  n_question :: json
  n_answer :: json
  n_category :: json
  n_difficulty :: json

definition Question :: "json \<Rightarrow> json \<Rightarrow> json \<Rightarrow> json \<Rightarrow> new_question" where
  "Question q a c d = \<lparr>n_question = q, n_answer = a, n_category = c, n_difficulty = d\<rparr>"

fun as_text :: "json \<Rightarrow> string option" where
  "as_text (JStr s) = (if sendable s then Some s else None)"
| "as_text j = None"

fun as_integer :: "json \<Rightarrow> int option" where
  "as_integer (JInt n) = (if int4 n then Some n else None)"
| "as_integer j = None"

definition next_id :: "store \<Rightarrow> int" where
  "next_id st = fold max (map q_id (questions st)) 0 + 1"

definition Question_insert :: "bool \<Rightarrow> store \<Rightarrow> new_question \<Rightarrow> exn + (question_row \<times> store)" where
  "Question_insert fails st n =
     (case (as_text (n_question n), as_text (n_answer n),
            as_integer (n_category n), as_integer (n_difficulty n)) of
        (Some q, Some a, Some c, Some d) \<Rightarrow>
          if fails then Inl StoreError
          else
            let row = \<lparr>q_id = next_id st, q_question = q, q_answer = a,
                        q_category = c, q_difficulty = d\<rparr>
            in Inr (row, st\<lparr>questions := questions st @ [row]\<rparr>)
      | _ \<Rightarrow> Inl StoreError)"

text \<open>Modelled from the spec: \<^verbatim>\<open>question.delete()\<close> removes the row of that primary
  key and commits; \<open>fails\<close> stands for a failure of the commit.\<close>

definition Question_delete :: "bool \<Rightarrow> store \<Rightarrow> question_row \<Rightarrow> exn + store" where
  "Question_delete fails st q =
     (if fails then Inl StoreError
      else Inr (st\<lparr>questions := filter (\<lambda>r. q_id r \<noteq> q_id q) (questions st)\<rparr>))"

text \<open>The dict comprehension \<^verbatim>\<open>{category.id: category.type for category in categories}\<close>,
  as the JSON object \<^verbatim>\<open>jsonify\<close> makes of it (keys printed as strings).\<close>

definition categories_dict :: "category_row list \<Rightarrow> (string \<times> json) list" where
  "categories_dict cs =
     fold (\<lambda>c d. AList.update (str_int (c_id c)) (JStr (c_type c)) d) cs []"

subsection \<open>Library calls: pagination and ILIKE\<close>

text \<open>
  Flask-SQLAlchemy's \<^verbatim>\<open>paginate(page, per_page, error_out=False)\<close>: a page below 1 is
  replaced by 1, the items are the rows from offset \<open>(page - 1) * per_page\<close>, at most
  \<open>per_page\<close> of them, and \<open>total\<close> counts all rows of the query. Python's integers are
  unbounded, the store's OFFSET is not: the query fails for an offset above \<open>BIGINT_MAX\<close>.
\<close>

record 'a pagination =
  items :: "'a list"
  total :: nat

definition paginate :: "'a list \<Rightarrow> int \<Rightarrow> nat \<Rightarrow> exn + 'a pagination" where
  "paginate rows page per_page =
     (let page' = (if page < 1 then 1 else page);
          offset = nat (page' - 1) * per_page
      in if BIGINT_MAX < offset then Inl StoreError
         else Inr \<lparr>items = take per_page (drop offset rows), total = length rows\<rparr>)"

text \<open>
  SQL's LIKE on a pattern and a text: \<open>%\<close> matches any run of characters, \<open>_\<close> any one
  character, and a backslash makes the next pattern character literal. (A pattern that
  ends in a lone backslash is an error of the database; the handler's pattern always ends
  in \<open>%\<close>, so that case is only given the value False here.)
\<close>

fun like :: "string \<Rightarrow> string \<Rightarrow> bool" where
  "like [] s = (s = [])"
| "like (p # ps) s =
     (if p = CHR ''%'' then
        like ps s \<or> (case s of [] \<Rightarrow> False | c # s' \<Rightarrow> like (p # ps) s')
      else if p = CHR ''_'' then
        (case s of [] \<Rightarrow> False | c # s' \<Rightarrow> like ps s')
      else if p = CHR 0x5C then
        (case ps of
           [] \<Rightarrow> False
         | e # ps' \<Rightarrow> (case s of [] \<Rightarrow> False | c # s' \<Rightarrow> c = e \<and> like ps' s'))
      else
        (case s of [] \<Rightarrow> False | c # s' \<Rightarrow> c = p \<and> like ps s'))"

text \<open>ILIKE compares without regard to case: both sides are lower-cased (ASCII letters).\<close>

definition upper_letters :: string where
  "upper_letters = ''ABCDEFGHIJKLMNOPQRSTUVWXYZ''"

definition lower_letters :: string where
  "lower_letters = ''abcdefghijklmnopqrstuvwxyz''"

definition lower_char :: "char \<Rightarrow> char" where
  "lower_char c =
     (case map_of (zip upper_letters lower_letters) c of Some l \<Rightarrow> l | None \<Rightarrow> c)"

definition ilike :: "string \<Rightarrow> string \<Rightarrow> bool" where
  "ilike text pattern = like (map lower_char pattern) (map lower_char text)"

subsection \<open>Responses and the error handlers\<close>

record response =
  status :: nat
  body :: json

text \<open>\<^verbatim>\<open>return jsonify(...)\<close> answers 200; \<^verbatim>\<open>return jsonify(...), 201\<close> gives the status.
  The body is the JSON object of the dict; the order of its keys carries no meaning.\<close>

definition jsonify :: "nat \<Rightarrow> (string \<times> json) list \<Rightarrow> response" where
  "jsonify code kvs = \<lparr>status = code, body = JObj kvs\<rparr>"

definition create_error_response :: "nat \<Rightarrow> string \<Rightarrow> response" where
  "create_error_response error_code message =
     jsonify error_code
       [(''success'', JBool False), (''error'', JInt (int error_code)), (''message'', JStr message)]"

definition error_messages :: "(nat \<times> string) list" where
  "error_messages =
     [(400, ''Bad request''),
      (404, ''Resource not found''),
      (422, ''Unprocessable entity''),
      (500, ''Internal server error'')]"

text \<open>
  What the application answers for a handler's outcome. An abort goes to the handler
  registered for its code by the loop over \<open>error_messages\<close>. An exception that leaves
  the view function is turned by Flask into its InternalServerError, which goes to
  the handler registered for 500. (Every code the views abort with is in the table; for
  another code werkzeug's own page would be sent, given here with an empty body.)
\<close>

definition dispatch :: "response outcome \<Rightarrow> response option" where
  "dispatch out =
     (case out of
        Return r \<Rightarrow> Some r
      | Abort n \<Rightarrow>
          (case map_of error_messages n of
             Some msg \<Rightarrow> Some (create_error_response n msg)
           | None \<Rightarrow> Some \<lparr>status = n, body = JNull\<rparr>)
      | Raise e \<Rightarrow> Some (create_error_response 500 ''Internal server error'')
      | Unmodelled \<Rightarrow> None)"

subsection \<open>The view functions\<close>

definition get_categories :: "store \<Rightarrow> response outcome" where
  "get_categories st =
     (let cats = sort_key c_id (categories st);
          d = categories_dict cats
      in if length d = 0 then Abort 404
         else Return (jsonify 200 [(''success'', JBool True), (''categories'', JObj d)]))"

text \<open>
  \<^verbatim>\<open>request.args.get("page", 1, type=int)\<close> is the argument \<open>page_arg\<close>: None when the
  query has no page or one that \<^verbatim>\<open>int\<close> refuses, and then the default 1 is taken.
\<close>

definition PAGE_SIZE :: nat where
  "PAGE_SIZE = 10"

definition get_questions :: "store \<Rightarrow> int option \<Rightarrow> response outcome" where
  "get_questions st page_arg =
     (let page = (case page_arg of None \<Rightarrow> 1 | Some n \<Rightarrow> n)
      in case paginate (sort_key q_id (questions st)) page PAGE_SIZE of
           Inl e \<Rightarrow> Raise e
         | Inr qs \<Rightarrow>
             if items qs = [] then Abort 404
             else
               let formatted_questions = map format (items qs);
                   cats = sort_key c_id (categories st)
               in Return (jsonify 200
                    [(''success'', JBool True),
                     (''questions'', JList formatted_questions),
                     (''total_questions'', JInt (int (total qs))),
                     (''categories'', JObj (categories_dict cats)),
                     (''current_category'', JNull)]))"

definition delete_question :: "bool \<Rightarrow> store \<Rightarrow> int \<Rightarrow> response outcome \<times> store" where
  "delete_question fails st question_id =
     (case Question_get st question_id of
        None \<Rightarrow> (Abort 404, st)
      | Some q \<Rightarrow>
          (case Question_delete fails st q of
             Inl e \<Rightarrow> (Abort 422, st)
           | Inr st' \<Rightarrow>
               (Return (jsonify 200 [(''success'', JBool True), (''deleted'', JInt question_id)]),
                st')))"

definition required_fields :: "string list" where
  "required_fields = [''question'', ''answer'', ''category'', ''difficulty'']"

text \<open>The four subscripts \<^verbatim>\<open>data["question"]\<close>, ... in the order Python evaluates them;
  they stand before the \<^verbatim>\<open>try\<close>, so their exception leaves the view.\<close>

definition create_question :: "bool \<Rightarrow> store \<Rightarrow> json \<Rightarrow> response outcome \<times> store" where
  "create_question fails st data =
     (case py_all_in required_fields data of
        Inl e \<Rightarrow> (Raise e, st)
      | Inr False \<Rightarrow> (Abort 400, st)
      | Inr True \<Rightarrow>
          (case py_getitem data ''question'' of Inl e \<Rightarrow> (Raise e, st) | Inr q \<Rightarrow>
          (case py_getitem data ''answer'' of Inl e \<Rightarrow> (Raise e, st) | Inr a \<Rightarrow>
          (case py_getitem data ''category'' of Inl e \<Rightarrow> (Raise e, st) | Inr c \<Rightarrow>
          (case py_getitem data ''difficulty'' of Inl e \<Rightarrow> (Raise e, st) | Inr d \<Rightarrow>
          (let new_question = Question q a c d
           in case Question_insert fails st new_question of
                Inl e \<Rightarrow> (Abort 422, st)
              | Inr (row, st') \<Rightarrow>
                  (Return (jsonify 201
                     [(''success'', JBool True),
                      (''created'', JInt (q_id row)),
                      (''total_questions'', JInt (int (length (questions st'))))]),
                   st')))))))"

definition search_questions :: "store \<Rightarrow> json \<Rightarrow> response outcome" where
  "search_questions st data =
     (case py_get data ''searchTerm'' JNull of
        Inl e \<Rightarrow> Raise e
      | Inr search_term \<Rightarrow>
          if \<not> py_truthy search_term then Abort 400
          else
            (case py_str search_term of
               None \<Rightarrow> Unmodelled
             | Some t \<Rightarrow>
                 if \<not> sendable (''%'' @ t @ ''%'') then Raise ValueError
                 else
                   let qs = filter (\<lambda>q. ilike (q_question q) (''%'' @ t @ ''%'')) (questions st);
                       formatted_questions = map format qs
                   in Return (jsonify 200
                        [(''success'', JBool True),
                         (''questions'', JList formatted_questions),
                         (''total_questions'', JInt (int (length formatted_questions))),
                         (''current_category'', JNull)])))"

text \<open>The route's \<^verbatim>\<open>int\<close> converter only yields an id that is not negative, of any
  size. The first query stands before the \<^verbatim>\<open>try\<close>: when the store refuses the id's
  string form (the id does not fit the column), its exception leaves the view.\<close>

definition get_questions_by_category :: "bool \<Rightarrow> store \<Rightarrow> int \<Rightarrow> response outcome" where
  "get_questions_by_category lookup_fails st category_id =
     (if \<not> int4 category_id then Raise StoreError
      else
        let qs = filter (category_is (str_int category_id)) (questions st)
        in if length qs = 0 then Abort 404
           else
             try_except
               (let formatted_questions = map format qs
                in case Category_get lookup_fails st category_id of
                     Inl e \<Rightarrow> Raise e
                   | Inr None \<Rightarrow> Abort 404
                   | Inr (Some category) \<Rightarrow>
                       Return (jsonify 200
                         [(''success'', JBool True),
                          (''questions'', JList formatted_questions),
                          (''total_questions'', JInt (int (length formatted_questions))),
                          (''current_category'', JStr (c_type category))]))
               500)"

text \<open>
  \<^verbatim>\<open>~Question.id.in_(previous_questions)\<close> binds the list's values as ids: a list of JSON
  integers gives them; what the database makes of anything else is not modelled.
\<close>

fun id_list :: "json list \<Rightarrow> int list option" where
  "id_list [] = Some []"
| "id_list (JInt n # js) = map_option ((#) n) (id_list js)"
| "id_list (j # js) = None"

fun in_ids :: "json \<Rightarrow> int list option" where
  "in_ids (JList js) = id_list js"
| "in_ids j = None"

text \<open>
  \<^verbatim>\<open>random.choice(seq)\<close> is \<^verbatim>\<open>seq[randbelow(len(seq))]\<close>; the generator is the argument
  \<open>randbelow\<close>. Everything in \<^verbatim>\<open>play_quiz\<close> stands under its \<^verbatim>\<open>try\<close>, also the query
  by category, which the store refuses for an id that does not fit the column. (The ids
  of \<open>previous_questions\<close> are sent as numbers, which the store compares at any size.)
\<close>

definition random_choice :: "(nat \<Rightarrow> nat) \<Rightarrow> 'a list \<Rightarrow> exn + 'a" where
  "random_choice randbelow seq =
     (let i = randbelow (length seq) in if i < length seq then Inr (seq ! i) else Inl IndexError)"

definition quiz_answer :: "(nat \<Rightarrow> nat) \<Rightarrow> question_row list \<Rightarrow> response outcome" where
  "quiz_answer randbelow available_questions =
     (if available_questions = [] then
        Return (jsonify 200 [(''success'', JBool True), (''question'', JNull)])
      else
        (case random_choice randbelow available_questions of
           Inl e \<Rightarrow> Raise e
         | Inr random_question \<Rightarrow>
             Return (jsonify 200
               [(''success'', JBool True), (''question'', format random_question)])))"

definition play_quiz :: "(nat \<Rightarrow> nat) \<Rightarrow> store \<Rightarrow> json \<Rightarrow> response outcome" where
  "play_quiz randbelow st data =
     try_except
       (case py_get data ''previous_questions'' (JList []) of
          Inl e \<Rightarrow> Raise e
        | Inr previous_questions \<Rightarrow>
       (case py_get data ''quiz_category'' JNull of
          Inl e \<Rightarrow> Raise e
        | Inr quiz_category \<Rightarrow>
            if py_truthy quiz_category then
              (case py_get quiz_category ''id'' JNull of
                 Inl e \<Rightarrow> Raise e
               | Inr category_id \<Rightarrow>
                   if py_eq_zero category_id then
                     (case in_ids previous_questions of
                        None \<Rightarrow> Unmodelled
                      | Some prev \<Rightarrow>
                          quiz_answer randbelow
                            (filter (\<lambda>q. q_id q \<notin> set prev) (questions st)))
                   else
                     (case (category_id, in_ids previous_questions) of
                        (JInt n, Some prev) \<Rightarrow>
                          if \<not> int4 n then Raise StoreError
                          else
                            quiz_answer randbelow
                              (filter (\<lambda>q. category_is (str_int n) q \<and> q_id q \<notin> set prev)
                                 (questions st))
                      | _ \<Rightarrow> Unmodelled))
            else
              (case in_ids previous_questions of
                 None \<Rightarrow> Unmodelled
               | Some prev \<Rightarrow>
                   quiz_answer randbelow
                     (filter (\<lambda>q. q_id q \<notin> set prev) (questions st)))))
       422"

subsection \<open>The specification's own notions\<close>

text \<open>
  The quiz pool in the specification's words: all questions whose id is not among the
  previous ones, restricted to the given category when one is given with an id other
  than 0.
\<close>

definition quiz_pool :: "store \<Rightarrow> int list \<Rightarrow> int option \<Rightarrow> question_row list" where
  "quiz_pool st previous_questions quiz_category_id =
     filter
       (\<lambda>q. q_id q \<notin> set previous_questions \<and>
            (case quiz_category_id of
               None \<Rightarrow> True
             | Some cid \<Rightarrow> cid = 0 \<or> category_is (str_int cid) q))
       (questions st)"

text \<open>A text contains a term as a case-insensitive substring.\<close>

definition contains_ci :: "string \<Rightarrow> string \<Rightarrow> bool" where
  "contains_ci text term = sublist (map lower_char term) (map lower_char text)"

subsection \<open>Example tables\<close>

definition no_rows :: store where
  "no_rows = \<lparr>questions = [], categories = []\<rparr>"

definition science :: category_row where
  "science = \<lparr>c_id = 1, c_type = ''Science''\<rparr>"

definition capital_row :: question_row where
  "capital_row =
     \<lparr>q_id = 1, q_question = ''What is the capital of France?'', q_answer = ''Paris'',
      q_category = 3, q_difficulty = 1\<rparr>"

definition numbered :: "int \<Rightarrow> question_row" where
  "numbered n =
     \<lparr>q_id = n, q_question = ''Question'', q_answer = ''Answer'', q_category = 1,
      q_difficulty = 2\<rparr>"


text \<open>A question of category 3 in tables whose only category is 1.\<close>

definition orphan_rows :: store where
  "orphan_rows = \<lparr>questions = [capital_row], categories = [science]\<rparr>"

text \<open>Questions of two categories.\<close>

definition mixed_rows :: store where
  "mixed_rows = \<lparr>questions = [capital_row, numbered 2, numbered 3], categories = [science]\<rparr>"

text \<open>A generator that always draws 0.\<close>

definition first_draw :: "nat \<Rightarrow> nat" where
  "first_draw n = 0"

section \<open>Properties\<close>

subsection \<open>Creating a question: the body and its keys\<close>

lemma py_all_in_obj:
  "py_all_in fs (JObj kvs) = Inr (set fs \<subseteq> set (map fst kvs))"
  by (induction fs) (auto split: bool.splits)


text \<open>
  C5. When the body of POST /questions is an object that lacks one of the four keys
  question, answer, category, difficulty, the view aborts with 400, whatever the other
  keys hold, the tables are the ones before the request, and the response is
  400, Bad request.
\<close>

theorem create_question_missing_key:
  assumes "f \<in> set required_fields" and "f \<notin> set (map fst kvs)"
  shows "create_question fails st (JObj kvs) = (Abort 400, st)
         \<and> dispatch (fst (create_question fails st (JObj kvs)))
             = Some (create_error_response 400 ''Bad request'')
         \<and> status (create_error_response 400 ''Bad request'') = 400"
proof -
  have "\<not> set required_fields \<subseteq> set (map fst kvs)"
    using assms by blast
  then have "py_all_in required_fields (JObj kvs) = Inr False"
    by (simp only: py_all_in_obj)
  then show ?thesis
    by (simp add: create_question_def dispatch_def error_messages_def
        create_error_response_def jsonify_def)
qed

text \<open>The repository's own test: question and answer are given, category and
  difficulty are not.\<close>

theorem create_question_missing_key_witness:
  "create_question False \<lparr>questions = [], categories = []\<rparr>
     (JObj [(''question'', JStr ''What is the capital of France?''), (''answer'', JStr ''Paris'')])
   = (Abort 400, \<lparr>questions = [], categories = []\<rparr>)"
  using create_question_missing_key [of "''category''"
     "[(''question'', JStr ''What is the capital of France?''), (''answer'', JStr ''Paris'')]"
     False "\<lparr>questions = [], categories = []\<rparr>"]
  by (simp add: required_fields_def)

text \<open>
  C6. When the body of POST /questions is an object with the four keys, the view hands
  their values to the persistence layer. If the insert is rejected, for whatever
  reason, the view aborts with 422 and the response is 422, Unprocessable entity
  (neither 201 nor 400). If the insert succeeds, the response is 201 with \<open>created\<close>
  the id of the new row and \<open>total_questions\<close> the number of rows after the insert.
\<close>

theorem create_question_persist:
  assumes "map_of kvs ''question'' = Some q" and "map_of kvs ''answer'' = Some a"
    and "map_of kvs ''category'' = Some c" and "map_of kvs ''difficulty'' = Some d"
  shows "(case Question_insert fails st (Question q a c d) of
            Inl e \<Rightarrow> create_question fails st (JObj kvs) = (Abort 422, st)
          | Inr (row, st') \<Rightarrow>
              create_question fails st (JObj kvs) =
                (Return (jsonify 201
                   [(''success'', JBool True),
                    (''created'', JInt (q_id row)),
                    (''total_questions'', JInt (int (length (questions st'))))]),
                 st'))
         \<and> dispatch (Abort 422) = Some (create_error_response 422 ''Unprocessable entity'')
         \<and> status (create_error_response 422 ''Unprocessable entity'') = 422"
proof -
  have "set required_fields \<subseteq> set (map fst kvs)"
    using assms by (auto simp add: required_fields_def dest!: map_of_SomeD intro: rev_image_eqI)
  then have "py_all_in required_fields (JObj kvs) = Inr True"
    by (simp add: py_all_in_obj)
  then show ?thesis
    using assms
    by (simp add: create_question_def dispatch_def error_messages_def
        create_error_response_def jsonify_def split: sum.splits prod.splits)
qed

text \<open>The repository's own tests: the category ''invalid'' is rejected; a well-typed
  question is created. In between, a commit that fails.\<close>

theorem create_question_persist_witness:
  "create_question False orphan_rows
     (JObj [(''question'', JStr ''What is the capital of France?''), (''answer'', JStr ''Paris''),
            (''category'', JStr ''invalid''), (''difficulty'', JInt 1)])
     = (Abort 422, orphan_rows)
   \<and> create_question True orphan_rows
     (JObj [(''question'', JStr ''Q?''), (''answer'', JStr ''A''),
            (''category'', JInt 1), (''difficulty'', JInt 1)])
     = (Abort 422, orphan_rows)
   \<and> create_question False orphan_rows
     (JObj [(''question'', JStr ''Q?''), (''answer'', JStr ''A''),
            (''category'', JInt 1), (''difficulty'', JInt 1)])
     = (Return (jsonify 201
          [(''success'', JBool True), (''created'', JInt 2), (''total_questions'', JInt 2)]),
        \<lparr>questions =
           [capital_row,
            \<lparr>q_id = 2, q_question = ''Q?'', q_answer = ''A'', q_category = 1, q_difficulty = 1\<rparr>],
         categories = [science]\<rparr>)"
  using
    create_question_persist [of
      "[(''question'', JStr ''What is the capital of France?''), (''answer'', JStr ''Paris''),
        (''category'', JStr ''invalid''), (''difficulty'', JInt 1)]"
      "JStr ''What is the capital of France?''" "JStr ''Paris''" "JStr ''invalid''" "JInt 1"
      False orphan_rows]
    create_question_persist [of
      "[(''question'', JStr ''Q?''), (''answer'', JStr ''A''),
        (''category'', JInt 1), (''difficulty'', JInt 1)]"
      "JStr ''Q?''" "JStr ''A''" "JInt 1" "JInt 1" True orphan_rows]
    create_question_persist [of
      "[(''question'', JStr ''Q?''), (''answer'', JStr ''A''),
        (''category'', JInt 1), (''difficulty'', JInt 1)]"
      "JStr ''Q?''" "JStr ''A''" "JInt 1" "JInt 1" False orphan_rows]
  by (simp add: Question_insert_def Question_def next_id_def orphan_rows_def capital_row_def
      Let_def sendable_def int4_def)

text \<open>What a successful insert does to the table: the row is appended under an id no
  other row has.\<close>

lemma fold_max_ge_init: "(b::int) \<le> fold max xs b"
proof (induction xs arbitrary: b)
  case Nil
  show ?case by simp
next
  case (Cons a xs)
  have "max a b \<le> fold max xs (max a b)"
    by (rule Cons.IH)
  then show ?case by simp
qed

lemma fold_max_ge_mem: "(x::int) \<in> set xs \<Longrightarrow> x \<le> fold max xs b"
proof (induction xs arbitrary: b)
  case Nil
  then show ?case by simp
next
  case (Cons a xs)
  show ?case
  proof (cases "x = a")
    case True
    have "max a b \<le> fold max xs (max a b)"
      by (rule fold_max_ge_init)
    then show ?thesis using True by simp
  next
    case False
    then have "x \<in> set xs" using Cons.prems by simp
    then show ?thesis using Cons.IH by simp
  qed
qed

lemma next_id_fresh: "next_id st \<notin> set (map q_id (questions st))"
proof
  assume "next_id st \<in> set (map q_id (questions st))"
  then have "next_id st \<le> fold max (map q_id (questions st)) 0"
    by (rule fold_max_ge_mem)
  then show False by (simp add: next_id_def)
qed

lemma Question_insert_fresh:
  assumes "Question_insert fails st n = Inr (row, st')"
  shows "questions st' = questions st @ [row] \<and> q_id row \<notin> set (map q_id (questions st))
         \<and> length (questions st') = length (questions st) + 1"
proof -
  have "q_id row = next_id st \<and> questions st' = questions st @ [row]"
    using assms
    by (auto simp add: Question_insert_def Let_def split: option.splits if_splits)
  then show ?thesis
    using next_id_fresh [of st] by simp
qed

subsection \<open>Searching\<close>

text \<open>
  C8. When the body of POST /questions/search is an object without the key searchTerm,
  or with an empty searchTerm, the view aborts with 400 before any query is made, and
  the response is 400, Bad request.
\<close>

theorem search_questions_no_term:
  assumes "map_of kvs ''searchTerm'' = None \<or> map_of kvs ''searchTerm'' = Some (JStr [])"
  shows "search_questions st (JObj kvs) = Abort 400
         \<and> dispatch (search_questions st (JObj kvs))
             = Some (create_error_response 400 ''Bad request'')
         \<and> status (create_error_response 400 ''Bad request'') = 400"
  using assms
  by (auto simp add: search_questions_def dispatch_def error_messages_def
      create_error_response_def jsonify_def)

theorem search_questions_no_term_witness:
  "search_questions \<lparr>questions = [], categories = []\<rparr> (JObj []) = Abort 400
   \<and> search_questions \<lparr>questions = [], categories = []\<rparr> (JObj [(''searchTerm'', JStr [])])
       = Abort 400"
  using search_questions_no_term [of "[]" "\<lparr>questions = [], categories = []\<rparr>"]
    search_questions_no_term [of "[(''searchTerm'', JStr [])]" "\<lparr>questions = [], categories = []\<rparr>"]
  by simp

text \<open>The pattern \<open>%term%\<close> on a term without \<open>%\<close>, \<open>_\<close> and backslash: LIKE is the
  substring test, and ILIKE the case-insensitive one.\<close>

lemma like_percent: "like ''%'' s"
  by (induction s) auto

lemma like_plain_prefix:
  assumes "CHR ''%'' \<notin> set p" and "CHR ''_'' \<notin> set p" and "CHR 0x5C \<notin> set p"
  shows "like (p @ ''%'') s \<longleftrightarrow> prefix p s"
  using assms
proof (induction p arbitrary: s)
  case Nil
  then show ?case using like_percent by simp
next
  case (Cons a p)
  then show ?case by (cases s) auto
qed

lemma like_plain_sublist:
  assumes "CHR ''%'' \<notin> set p" and "CHR ''_'' \<notin> set p" and "CHR 0x5C \<notin> set p"
  shows "like (CHR ''%'' # p @ ''%'') s \<longleftrightarrow> sublist p s"
proof (induction s)
  case Nil
  show ?case using like_plain_prefix [OF assms, of "[]"] by simp
next
  case (Cons c s)
  show ?case
    using like_plain_prefix [OF assms, of "c # s"] Cons
    by (simp add: sublist_Cons_right)
qed

lemma lower_char_cases: "lower_char c = c \<or> lower_char c \<in> set lower_letters"
proof (cases "map_of (zip upper_letters lower_letters) c")
  case None
  then show ?thesis by (simp add: lower_char_def)
next
  case (Some l)
  then have "l \<in> set lower_letters"
    by (meson map_of_SomeD set_zip_rightD)
  then show ?thesis using Some by (simp add: lower_char_def)
qed

lemma lower_char_special:
  "lower_char c = CHR ''%'' \<longleftrightarrow> c = CHR ''%''"
  "lower_char c = CHR ''_'' \<longleftrightarrow> c = CHR ''_''"
  "lower_char c = CHR 0x5C \<longleftrightarrow> c = CHR 0x5C"
proof -
  have fixed: "lower_char (CHR ''%'') = CHR ''%''" "lower_char (CHR ''_'') = CHR ''_''"
    "lower_char (CHR 0x5C) = CHR 0x5C"
    by (simp_all add: lower_char_def upper_letters_def lower_letters_def)
  have out: "CHR ''%'' \<notin> set lower_letters" "CHR ''_'' \<notin> set lower_letters"
    "CHR 0x5C \<notin> set lower_letters"
    by (simp_all add: lower_letters_def)
  show "lower_char c = CHR ''%'' \<longleftrightarrow> c = CHR ''%''"
    using lower_char_cases [of c] fixed(1) out(1) by metis
  show "lower_char c = CHR ''_'' \<longleftrightarrow> c = CHR ''_''"
    using lower_char_cases [of c] fixed(2) out(2) by metis
  show "lower_char c = CHR 0x5C \<longleftrightarrow> c = CHR 0x5C"
    using lower_char_cases [of c] fixed(3) out(3) by metis
qed

lemma lower_char_keeps_out:
  assumes "lower_char x = x" and "\<And>c. lower_char c = x \<longleftrightarrow> c = x" and "x \<notin> set t"
  shows "x \<notin> set (map lower_char t)"
proof
  assume "x \<in> set (map lower_char t)"
  then obtain c where "c \<in> set t" and "lower_char c = x"
    by auto
  then show False using assms(2,3) by simp
qed

lemma ilike_plain:
  assumes "CHR ''%'' \<notin> set t" and "CHR ''_'' \<notin> set t" and "CHR 0x5C \<notin> set t"
  shows "ilike text (CHR ''%'' # t @ ''%'') \<longleftrightarrow> contains_ci text t"
proof -
  have l: "lower_char (CHR ''%'') = CHR ''%''" "lower_char (CHR ''_'') = CHR ''_''"
    "lower_char (CHR 0x5C) = CHR 0x5C"
    by (simp_all only: lower_char_special)
  have m: "map lower_char (CHR ''%'' # t @ ''%'') = CHR ''%'' # map lower_char t @ ''%''"
    by (simp only: list.map map_append l)
  have "like (CHR ''%'' # map lower_char t @ ''%'') (map lower_char text)
        \<longleftrightarrow> sublist (map lower_char t) (map lower_char text)"
    by (rule like_plain_sublist)
       (rule lower_char_keeps_out, rule l, rule lower_char_special, rule assms)+
  then show ?thesis
    by (simp only: ilike_def contains_ci_def m)
qed

text \<open>
  For a search term that is a non-empty string without \<open>%\<close>, \<open>_\<close>, backslash and NUL,
  the response is 200 and lists exactly the questions whose text contains the term as a
  case-insensitive substring, all of them, with \<open>total_questions\<close> their number and
  \<open>current_category\<close> null; with no match the list is empty and the status still 200.
\<close>

lemma search_plain:
  assumes "map_of kvs ''searchTerm'' = Some (JStr t)" and "t \<noteq> []"
    and "CHR ''%'' \<notin> set t" and "CHR ''_'' \<notin> set t" and "CHR 0x5C \<notin> set t"
    and "CHR 0x00 \<notin> set t"
  shows "search_questions st (JObj kvs) =
     (let found = filter (\<lambda>q. contains_ci (q_question q) t) (questions st)
      in Return (jsonify 200
           [(''success'', JBool True),
            (''questions'', JList (map format found)),
            (''total_questions'', JInt (int (length found))),
            (''current_category'', JNull)]))"
  using assms(1,2,6)
  by (simp add: search_questions_def ilike_plain [OF assms(3-5)] Let_def sendable_def)

lemma search_plain_witness:
  "search_questions orphan_rows (JObj [(''searchTerm'', JStr ''capital'')])
     = Return (jsonify 200
         [(''success'', JBool True),
          (''questions'', JList [format capital_row]),
          (''total_questions'', JInt 1),
          (''current_category'', JNull)])
   \<and> search_questions orphan_rows (JObj [(''searchTerm'', JStr ''FRANCE?'')])
     = Return (jsonify 200
         [(''success'', JBool True),
          (''questions'', JList [format capital_row]),
          (''total_questions'', JInt 1),
          (''current_category'', JNull)])
   \<and> search_questions orphan_rows (JObj [(''searchTerm'', JStr ''xyzxyzxyz'')])
     = Return (jsonify 200
         [(''success'', JBool True),
          (''questions'', JList []),
          (''total_questions'', JInt 0),
          (''current_category'', JNull)])"
  using search_plain [of "[(''searchTerm'', JStr ''capital'')]" "''capital''" orphan_rows]
    search_plain [of "[(''searchTerm'', JStr ''FRANCE?'')]" "''FRANCE?''" orphan_rows]
    search_plain [of "[(''searchTerm'', JStr ''xyzxyzxyz'')]" "''xyzxyzxyz''" orphan_rows]
  by (simp add: contains_ci_def orphan_rows_def capital_row_def lower_char_def upper_letters_def
      lower_letters_def sublist_Cons_right prefix_Cons)

text \<open>A term with a NUL in it cannot be sent to the store: the exception leaves the view.\<close>

lemma search_questions_nul:
  "search_questions st (JObj [(''searchTerm'', JStr [CHR 0x00])]) = Raise ValueError"
  by (simp add: search_questions_def sendable_def)

text \<open>The term \<open>%\<close> makes the pattern \<open>%%%\<close>, which every text matches.\<close>

lemma ilike_percent: "ilike text ''%%%''"
proof -
  have l: "lower_char (CHR ''%'') = CHR ''%''"
    by (simp only: lower_char_special)
  have "like ''%'' (map lower_char text)"
    by (rule like_percent)
  then have "like ''%%%'' (map lower_char text)"
    by simp
  then show ?thesis
    by (simp add: ilike_def l)
qed

text \<open>
  C7. The claim: for a non-empty searchTerm the response lists exactly the questions
  whose text contains the term as a case-insensitive substring. The view puts the term
  into the ILIKE pattern as it is, so a \<open>%\<close> or \<open>_\<close> in it is a wildcard: the search for
  \<open>%\<close> answers 200 with the question about the capital of France, whose text has
  no \<open>%\<close> in it.
\<close>

theorem search_questions_wildcard:
  "search_questions orphan_rows (JObj [(''searchTerm'', JStr ''%'')])
     = Return (jsonify 200
         [(''success'', JBool True),
          (''questions'', JList [format capital_row]),
          (''total_questions'', JInt 1),
          (''current_category'', JNull)])
   \<and> \<not> contains_ci (q_question capital_row) ''%''"
proof -
  have "\<not> contains_ci (q_question capital_row) ''%''"
    by (simp add: contains_ci_def capital_row_def lower_char_def upper_letters_def
        lower_letters_def sublist_Cons_right prefix_Cons)
  moreover have "search_questions orphan_rows (JObj [(''searchTerm'', JStr ''%'')])
     = Return (jsonify 200
         [(''success'', JBool True),
          (''questions'', JList [format capital_row]),
          (''total_questions'', JInt 1),
          (''current_category'', JNull)])"
    by (simp add: search_questions_def ilike_percent orphan_rows_def sendable_def)
  ultimately show ?thesis by simp
qed

subsection \<open>Listing the questions\<close>

lemma sort_key_Nil_iff: "sort_key f xs = [] \<longleftrightarrow> xs = []"
  by (metis length_0_conv length_sort)






text \<open>
  C10. GET /questions with a page of 0 or less: the pagination takes page 1 instead,
  so with a question in the table the response is 200 with the first page, the same as
  for page 1, and not 404.
\<close>

theorem get_questions_page_below_one:
  assumes "n < 1" and "questions st \<noteq> []"
  shows "get_questions st (Some n) =
           Return (jsonify 200
             [(''success'', JBool True),
              (''questions'', JList (map format (take 10 (sort_key q_id (questions st))))),
              (''total_questions'', JInt (int (length (questions st)))),
              (''categories'', JObj (categories_dict (sort_key c_id (categories st)))),
              (''current_category'', JNull)])
         \<and> get_questions st (Some n) = get_questions st (Some 1)
         \<and> take 10 (sort_key q_id (questions st)) \<noteq> []
         \<and> dispatch (get_questions st (Some n))
             \<noteq> Some (create_error_response 404 ''Resource not found'')"
  using assms
  by (simp add: get_questions_def paginate_def PAGE_SIZE_def BIGINT_MAX_def Let_def
      sort_key_Nil_iff dispatch_def jsonify_def create_error_response_def)

theorem get_questions_page_below_one_witness:
  "get_questions orphan_rows (Some 0) =
     Return (jsonify 200
       [(''success'', JBool True),
        (''questions'', JList [format capital_row]),
        (''total_questions'', JInt 1),
        (''categories'', JObj [(''1'', JStr ''Science'')]),
        (''current_category'', JNull)])
   \<and> get_questions orphan_rows (Some (- 7)) = get_questions orphan_rows (Some 1)"
  using get_questions_page_below_one [of 0 orphan_rows]
    get_questions_page_below_one [of "- 7" orphan_rows]
  by (simp add: orphan_rows_def science_def categories_dict_def str_int_def
      str_nat.simps digit_char_def get_questions_def paginate_def PAGE_SIZE_def BIGINT_MAX_def)

subsection \<open>Deleting a question\<close>

lemma Question_get_None: "Question_get st qid = None \<longleftrightarrow> qid \<notin> set (map q_id (questions st))"
  by (auto simp add: Question_get_def find_None_iff)

lemma Question_get_Some: "Question_get st qid = Some q \<Longrightarrow> q_id q = qid \<and> q \<in> set (questions st)"
  by (auto simp add: Question_get_def find_Some_iff)

text \<open>
  C4. DELETE /questions/id. For an id in the table and a commit that succeeds, the
  response is 200 with \<open>deleted\<close> the id, the rows of that id are gone and the others
  stay, so the same request on the new table aborts with 404. When the commit fails
  the view aborts with 422 and the table is unchanged. For an id that is not in the
  table the view aborts with 404.
\<close>

theorem delete_question_twice:
  "(question_id \<in> set (map q_id (questions st)) \<longrightarrow>
      (let st' = snd (delete_question False st question_id)
       in fst (delete_question False st question_id) =
            Return (jsonify 200 [(''success'', JBool True), (''deleted'', JInt question_id)])
          \<and> questions st' = filter (\<lambda>r. q_id r \<noteq> question_id) (questions st)
          \<and> question_id \<notin> set (map q_id (questions st'))
          \<and> delete_question fails st' question_id = (Abort 404, st')
          \<and> delete_question True st question_id = (Abort 422, st)))
   \<and> (question_id \<notin> set (map q_id (questions st)) \<longrightarrow>
        delete_question fails st question_id = (Abort 404, st))
   \<and> dispatch (Abort 404) = Some (create_error_response 404 ''Resource not found'')
   \<and> dispatch (Abort 422) = Some (create_error_response 422 ''Unprocessable entity'')
   \<and> status (create_error_response 404 ''Resource not found'') = 404
   \<and> status (create_error_response 422 ''Unprocessable entity'') = 422"
proof -
  have absent: "delete_question b s question_id = (Abort 404, s)"
    if "question_id \<notin> set (map q_id (questions s))" for b s
  proof -
    have "Question_get s question_id = None"
      using that Question_get_None by blast
    then show ?thesis by (simp add: delete_question_def)
  qed
  have present: ?thesis if pr: "question_id \<in> set (map q_id (questions st))"
  proof -
    have "Question_get st question_id \<noteq> None"
      using pr Question_get_None [of st question_id] by blast
    then obtain q where q: "Question_get st question_id = Some q"
      by blast
    then have qid: "q_id q = question_id"
      using Question_get_Some by blast
    define st' where "st' = st\<lparr>questions := filter (\<lambda>r. q_id r \<noteq> question_id) (questions st)\<rparr>"
    have ok: "delete_question False st question_id =
          (Return (jsonify 200 [(''success'', JBool True), (''deleted'', JInt question_id)]), st')"
      by (simp add: delete_question_def q Question_delete_def qid st'_def)
    have gone: "question_id \<notin> set (map q_id (questions st'))"
      by (auto simp add: st'_def)
    have again: "delete_question fails st' question_id = (Abort 404, st')"
      using gone by (rule absent)
    have bad: "delete_question True st question_id = (Abort 422, st)"
      by (simp add: delete_question_def q Question_delete_def)
    show ?thesis
      using pr ok gone again bad
      by (simp add: Let_def st'_def dispatch_def error_messages_def
          create_error_response_def jsonify_def)
  qed
  have "?thesis" if "question_id \<notin> set (map q_id (questions st))"
    using that absent [OF that]
    by (simp add: dispatch_def error_messages_def create_error_response_def jsonify_def)
  then show ?thesis using present by blast
qed

theorem delete_question_twice_witness:
  "delete_question False mixed_rows 2 =
     (Return (jsonify 200 [(''success'', JBool True), (''deleted'', JInt 2)]),
      \<lparr>questions = [capital_row, numbered 3], categories = [science]\<rparr>)
   \<and> delete_question False \<lparr>questions = [capital_row, numbered 3], categories = [science]\<rparr> 2 =
       (Abort 404, \<lparr>questions = [capital_row, numbered 3], categories = [science]\<rparr>)
   \<and> delete_question False mixed_rows 9999 = (Abort 404, mixed_rows)
   \<and> delete_question True mixed_rows 2 = (Abort 422, mixed_rows)"
  using delete_question_twice [of 2 mixed_rows False] delete_question_twice [of 9999 mixed_rows False]
  by (simp add: mixed_rows_def capital_row_def numbered_def delete_question_def Question_get_def
      Question_delete_def)

subsection \<open>The questions of a category\<close>

text \<open>\<^verbatim>\<open>str\<close> is injective on the integers, so comparing the category with the string
  form of an id compares it with the id.\<close>

lemma digit_char_inj:
  assumes "d < 10" and "e < 10" and "digit_char d = digit_char e"
  shows "d = e"
proof -
  have "distinct ''0123456789''" by simp
  moreover have "d < length ''0123456789''" "e < length ''0123456789''"
    using assms(1,2) by simp_all
  ultimately show ?thesis
    using assms(3) unfolding digit_char_def by (simp only: nth_eq_iff_index_eq)
qed

lemma digit_char_not_minus: "d < 10 \<Longrightarrow> digit_char d \<noteq> CHR ''-''"
proof -
  assume "d < 10"
  then have "d < length ''0123456789''" by simp
  then have "''0123456789'' ! d \<in> set ''0123456789''"
    by (rule nth_mem)
  moreover have "CHR ''-'' \<notin> set ''0123456789''" by simp
  ultimately show ?thesis unfolding digit_char_def by metis
qed

lemma str_nat_not_Nil: "str_nat n \<noteq> []"
  by (subst str_nat.simps) simp

lemma str_nat_no_minus: "CHR ''-'' \<notin> set (str_nat n)"
proof (induction n rule: str_nat.induct)
  case (1 n)
  show ?case
  proof (cases "n < 10")
    case True
    then show ?thesis
      using digit_char_not_minus [of n] by (subst str_nat.simps) auto
  next
    case False
    then show ?thesis
      using 1 digit_char_not_minus [of "n mod 10"] by (subst str_nat.simps) auto
  qed
qed

lemma str_nat_inj: "str_nat n = str_nat m \<Longrightarrow> n = m"
proof (induction n arbitrary: m rule: str_nat.induct)
  case (1 n)
  have n: "str_nat n = (if n < 10 then [digit_char n] else str_nat (n div 10) @ [digit_char (n mod 10)])"
    by (rule str_nat.simps)
  have m: "str_nat m = (if m < 10 then [digit_char m] else str_nat (m div 10) @ [digit_char (m mod 10)])"
    by (rule str_nat.simps)
  show ?case
  proof (cases "n < 10")
    case True
    show ?thesis
    proof (cases "m < 10")
      case mt: True
      then show ?thesis using True 1(2) n m digit_char_inj by simp
    next
      case False
      then have "[digit_char n] = str_nat (m div 10) @ [digit_char (m mod 10)]"
        using True 1(2) n m by simp
      then show ?thesis using str_nat_not_Nil [of "m div 10"] by simp
    qed
  next
    case False
    show ?thesis
    proof (cases "m < 10")
      case True
      then have "str_nat (n div 10) @ [digit_char (n mod 10)] = [digit_char m]"
        using False 1(2) n m by simp
      then show ?thesis using str_nat_not_Nil [of "n div 10"] by simp
    next
      case mf: False
      have "str_nat (n div 10) @ [digit_char (n mod 10)] = str_nat (m div 10) @ [digit_char (m mod 10)]"
        using False mf 1(2) n m by simp
      then have a: "str_nat (n div 10) = str_nat (m div 10)"
        and b: "digit_char (n mod 10) = digit_char (m mod 10)"
        by simp_all
      have "n div 10 = m div 10"
        using 1(1) [OF False a] .
      moreover have "n mod 10 = m mod 10"
        using b digit_char_inj [of "n mod 10" "m mod 10"] by simp
      ultimately show ?thesis
        by (metis div_mult_mod_eq)
    qed
  qed
qed

lemma str_int_inj: "str_int i = str_int j \<longleftrightarrow> i = j"
proof
  assume e: "str_int i = str_int j"
  have hd: "str_nat k \<noteq> CHR ''-'' # s" for k s
    using str_nat_no_minus [of k] by (metis list.set_intros(1))
  show "i = j"
  proof (cases "i < 0")
    case True
    show ?thesis
    proof (cases "j < 0")
      case jt: True
      then have "str_nat (nat (- i)) = str_nat (nat (- j))"
        using True e by (simp add: str_int_def)
      then have "nat (- i) = nat (- j)" by (rule str_nat_inj)
      then show ?thesis using True jt by simp
    next
      case False
      then show ?thesis using True e hd [of "nat j"] by (simp add: str_int_def) metis
    qed
  next
    case False
    show ?thesis
    proof (cases "j < 0")
      case True
      then show ?thesis using False e hd [of "nat i"] by (simp add: str_int_def)
    next
      case jf: False
      then have "str_nat (nat i) = str_nat (nat j)"
        using False e by (simp add: str_int_def)
      then have "nat i = nat j" by (rule str_nat_inj)
      then show ?thesis using False jf by simp
    qed
  qed
qed simp

lemma category_is_str_int: "category_is (str_int cid) q \<longleftrightarrow> q_category q = cid"
  by (simp add: category_is_def str_int_inj)

text \<open>
  C1. The claim: when no Category row has the id, the response is 404. The view's
  \<^verbatim>\<open>abort(404)\<close> for the missing category stands inside the \<^verbatim>\<open>try\<close> whose bare
  \<^verbatim>\<open>except\<close> aborts with 500, so it never leaves the view: for a question of category
  3 and no category 3, the response is 500, Internal server error.
\<close>

theorem get_questions_by_category_orphan:
  "filter (category_is (str_int 3)) (questions orphan_rows) = [capital_row]
   \<and> find (\<lambda>c. c_id c = 3) (categories orphan_rows) = None
   \<and> get_questions_by_category False orphan_rows 3 = Abort 500
   \<and> dispatch (get_questions_by_category False orphan_rows 3)
       = Some (create_error_response 500 ''Internal server error'')
   \<and> status (create_error_response 500 ''Internal server error'') = 500"
  by (simp add: get_questions_by_category_def orphan_rows_def capital_row_def science_def
      category_is_def str_int_def str_nat.simps digit_char_def Category_get_def try_except_def
      dispatch_def error_messages_def create_error_response_def jsonify_def int4_def)

text \<open>
  Every outcome of GET /categories/id/questions. For an id that does not fit the
  integer column the first query fails outside the \<^verbatim>\<open>try\<close>: 500. For an id that fits:
  404 when no question has the category; otherwise 500 when the lookup of the category
  fails or finds no row, and 200 with the questions of the category, their number, and
  the category's type when it finds one.
\<close>

lemma get_questions_by_category_outcomes:
  "(\<not> int4 category_id \<longrightarrow>
      get_questions_by_category lookup_fails st category_id = Raise StoreError)
   \<and> (int4 category_id \<longrightarrow>
        (filter (category_is (str_int category_id)) (questions st) = [] \<longrightarrow>
           get_questions_by_category lookup_fails st category_id = Abort 404)
        \<and> (filter (category_is (str_int category_id)) (questions st) \<noteq> [] \<longrightarrow>
             (case Category_get lookup_fails st category_id of
                Inl e \<Rightarrow> get_questions_by_category lookup_fails st category_id = Abort 500
              | Inr None \<Rightarrow> get_questions_by_category lookup_fails st category_id = Abort 500
              | Inr (Some category) \<Rightarrow>
                  get_questions_by_category lookup_fails st category_id =
                    Return (jsonify 200
                      [(''success'', JBool True),
                       (''questions'',
                        JList (map format
                          (filter (category_is (str_int category_id)) (questions st)))),
                       (''total_questions'',
                        JInt (int (length
                          (filter (category_is (str_int category_id)) (questions st))))),
                       (''current_category'', JStr (c_type category))]))))"
proof (cases "int4 category_id")
  case True
  then show ?thesis
    by (simp add: get_questions_by_category_def try_except_def Let_def
        split: sum.splits option.splits)
next
  case False
  then show ?thesis
    by (simp add: get_questions_by_category_def)
qed

lemma get_questions_by_category_outcomes_witness:
  "get_questions_by_category False mixed_rows 7 = Abort 404
   \<and> get_questions_by_category True mixed_rows 1 = Abort 500
   \<and> get_questions_by_category False mixed_rows 1 =
       Return (jsonify 200
         [(''success'', JBool True),
          (''questions'', JList [format (numbered 2), format (numbered 3)]),
          (''total_questions'', JInt 2),
          (''current_category'', JStr ''Science'')])
   \<and> get_questions_by_category False mixed_rows 2147483648 = Raise StoreError"
  using get_questions_by_category_outcomes [of 7 False mixed_rows]
    get_questions_by_category_outcomes [of 1 True mixed_rows]
    get_questions_by_category_outcomes [of 1 False mixed_rows]
    get_questions_by_category_outcomes [of 2147483648 False mixed_rows]
  by (simp add: mixed_rows_def capital_row_def numbered_def science_def category_is_def
      str_int_def str_nat.simps digit_char_def Category_get_def int4_def)

subsection \<open>The quiz\<close>

lemma quiz_answer_empty:
  "quiz_answer randbelow [] = Return (jsonify 200 [(''success'', JBool True), (''question'', JNull)])"
  by (simp add: quiz_answer_def)

lemma quiz_answer_draw:
  "i < length pool \<Longrightarrow> randbelow (length pool) = i \<Longrightarrow>
   quiz_answer randbelow pool =
     Return (jsonify 200 [(''success'', JBool True), (''question'', format (pool ! i))])"
  by (auto simp add: quiz_answer_def random_choice_def Let_def)

lemma id_list_ints: "id_list (map JInt prev) = Some prev"
  by (induction prev) auto

lemma try_except_Return: "try_except (Return r) code = Return r"
  by (simp add: try_except_def)

lemma play_quiz_pool_eq:
  assumes "map_of kvs ''previous_questions'' = Some (JList (map JInt prev))
           \<or> (map_of kvs ''previous_questions'' = None \<and> prev = [])"
    and "case cat of
           None \<Rightarrow> map_of kvs ''quiz_category'' = None \<or> map_of kvs ''quiz_category'' = Some JNull
         | Some cid \<Rightarrow>
             (\<exists>c. map_of kvs ''quiz_category'' = Some (JObj c) \<and> map_of c ''id'' = Some (JInt cid))"
  shows "play_quiz randbelow st (JObj kvs) =
           try_except
             (if (case cat of None \<Rightarrow> True | Some cid \<Rightarrow> int4 cid)
              then quiz_answer randbelow (quiz_pool st prev cat)
              else Raise StoreError)
             422"
proof -
  have prev: "py_get (JObj kvs) ''previous_questions'' (JList []) = Inr (JList (map JInt prev))"
    using assms(1) by auto
  have ids: "in_ids (JList (map JInt prev)) = Some prev"
    by (simp add: id_list_ints)
  show ?thesis
  proof (cases cat)
    case None
    then have "py_get (JObj kvs) ''quiz_category'' JNull = Inr JNull"
      using assms(2) by auto
    then show ?thesis
      using None by (simp add: play_quiz_def prev ids quiz_pool_def del: py_get.simps in_ids.simps)
  next
    case (Some cid)
    then obtain c where c: "map_of kvs ''quiz_category'' = Some (JObj c)"
      and i: "map_of c ''id'' = Some (JInt cid)"
      using assms(2) by auto
    have qc: "py_get (JObj kvs) ''quiz_category'' JNull = Inr (JObj c)"
      using c by simp
    have "c \<noteq> []" using i by auto
    then have t: "py_truthy (JObj c)" by simp
    have g: "py_get (JObj c) ''id'' JNull = Inr (JInt cid)"
      using i by simp
    show ?thesis
    proof (cases "cid = 0")
      case True
      then show ?thesis
        using Some
        by (simp add: play_quiz_def prev ids qc t g quiz_pool_def int4_def
            del: py_get.simps in_ids.simps py_truthy.simps)
    next
      case False
      have "filter (\<lambda>q. category_is (str_int cid) q \<and> q_id q \<notin> set prev) (questions st)
            = quiz_pool st prev cat"
        using False Some by (auto simp add: quiz_pool_def intro: filter_cong)
      then show ?thesis
        using False Some
        by (simp add: play_quiz_def prev ids qc t g
            del: py_get.simps in_ids.simps py_truthy.simps)
    qed
  qed
qed

text \<open>
  The claim C2 says question null whenever the pool is empty. No question of the
  example table has the category 2147483648, so the pool for that id is empty; the id
  does not fit the integer column, the query by category fails under the view's
  \<^verbatim>\<open>try\<close>, and the response is 422.
\<close>

theorem play_quiz_pool_counterexample:
  "quiz_pool mixed_rows [] (Some 2147483648) = []
   \<and> play_quiz first_draw mixed_rows
       (JObj [(''previous_questions'', JList []),
              (''quiz_category'', JObj [(''type'', JStr ''Science''), (''id'', JInt 2147483648)])])
     = Abort 422
   \<and> dispatch (Abort 422) = Some (create_error_response 422 ''Unprocessable entity'')
   \<and> status (create_error_response 422 ''Unprocessable entity'') = 422"
  by (simp add: quiz_pool_def category_is_str_int mixed_rows_def capital_row_def numbered_def
      play_quiz_def int4_def try_except_def dispatch_def error_messages_def
      create_error_response_def jsonify_def)

text \<open>
  C2, amended. POST /quizzes with a list of previous ids (none when the key is absent)
  and a quiz category that is absent, null, or an object with an integer id. The pool
  is \<open>quiz_pool\<close>: the questions whose id is not a previous one, of the given category
  unless none is given or its id is 0. When the id, if given, fits the store's 32-bit
  integer column: with an empty pool the response is 200 with success true and question
  null; otherwise the response carries the pool's question at the index the random
  generator draws below the pool's length (each member of the pool is the answer for
  the draw of its position, so a uniform draw is a uniform choice). When the id does
  not fit, the query fails and the response is 422.
\<close>

theorem play_quiz_pool:
  assumes "map_of kvs ''previous_questions'' = Some (JList (map JInt prev))
           \<or> (map_of kvs ''previous_questions'' = None \<and> prev = [])"
    and "case cat of
           None \<Rightarrow> map_of kvs ''quiz_category'' = None \<or> map_of kvs ''quiz_category'' = Some JNull
         | Some cid \<Rightarrow>
             (\<exists>c. map_of kvs ''quiz_category'' = Some (JObj c) \<and> map_of c ''id'' = Some (JInt cid))"
  shows "((case cat of None \<Rightarrow> True | Some cid \<Rightarrow> int4 cid) \<longrightarrow>
            (quiz_pool st prev cat = [] \<longrightarrow>
               play_quiz randbelow st (JObj kvs) =
                 Return (jsonify 200 [(''success'', JBool True), (''question'', JNull)]))
          \<and> (\<forall>i. i < length (quiz_pool st prev cat)
                    \<and> randbelow (length (quiz_pool st prev cat)) = i \<longrightarrow>
               play_quiz randbelow st (JObj kvs) =
                 Return (jsonify 200
                   [(''success'', JBool True),
                    (''question'', format (quiz_pool st prev cat ! i))])
               \<and> quiz_pool st prev cat ! i \<in> set (quiz_pool st prev cat)))
       \<and> (\<not> (case cat of None \<Rightarrow> True | Some cid \<Rightarrow> int4 cid) \<longrightarrow>
            play_quiz randbelow st (JObj kvs) = Abort 422
            \<and> dispatch (play_quiz randbelow st (JObj kvs))
                = Some (create_error_response 422 ''Unprocessable entity'')
            \<and> status (create_error_response 422 ''Unprocessable entity'') = 422)"
proof (cases "case cat of None \<Rightarrow> True | Some cid \<Rightarrow> int4 cid")
  case True
  then have "play_quiz randbelow st (JObj kvs)
             = try_except (quiz_answer randbelow (quiz_pool st prev cat)) 422"
    using play_quiz_pool_eq [OF assms, of randbelow st] by simp
  then show ?thesis
    using True by (auto simp add: quiz_answer_empty quiz_answer_draw try_except_Return)
next
  case False
  then have "play_quiz randbelow st (JObj kvs) = try_except (Raise StoreError) 422"
    using play_quiz_pool_eq [OF assms, of randbelow st] by simp
  then show ?thesis
    using False
    by (simp add: try_except_def dispatch_def error_messages_def create_error_response_def
        jsonify_def)
qed

theorem play_quiz_pool_witness:
  "play_quiz (\<lambda>n. 1) mixed_rows
     (JObj [(''previous_questions'', JList [JInt 1]),
            (''quiz_category'', JObj [(''type'', JStr ''click''), (''id'', JInt 0)])])
     = Return (jsonify 200 [(''success'', JBool True), (''question'', format (numbered 3))])
   \<and> play_quiz (\<lambda>n. 0) mixed_rows
     (JObj [(''previous_questions'', JList [JInt 2]),
            (''quiz_category'', JObj [(''type'', JStr ''Science''), (''id'', JInt 1)])])
     = Return (jsonify 200 [(''success'', JBool True), (''question'', format (numbered 3))])
   \<and> play_quiz (\<lambda>n. 0) mixed_rows
     (JObj [(''previous_questions'', JList [JInt 2, JInt 3]),
            (''quiz_category'', JObj [(''type'', JStr ''Science''), (''id'', JInt 1)])])
     = Return (jsonify 200 [(''success'', JBool True), (''question'', JNull)])
   \<and> play_quiz (\<lambda>n. 0) mixed_rows (JObj [])
     = Return (jsonify 200 [(''success'', JBool True), (''question'', format capital_row)])
   \<and> play_quiz (\<lambda>n. 0) mixed_rows
     (JObj [(''previous_questions'', JList []),
            (''quiz_category'', JObj [(''type'', JStr ''Science''), (''id'', JInt 2147483648)])])
     = Abort 422"
  using
    play_quiz_pool [of
      "[(''previous_questions'', JList [JInt 1]),
        (''quiz_category'', JObj [(''type'', JStr ''click''), (''id'', JInt 0)])]"
      "[1]" "Some 0" mixed_rows "\<lambda>n. 1"]
    play_quiz_pool [of
      "[(''previous_questions'', JList [JInt 2]),
        (''quiz_category'', JObj [(''type'', JStr ''Science''), (''id'', JInt 1)])]"
      "[2]" "Some 1" mixed_rows "\<lambda>n. 0"]
    play_quiz_pool [of
      "[(''previous_questions'', JList [JInt 2, JInt 3]),
        (''quiz_category'', JObj [(''type'', JStr ''Science''), (''id'', JInt 1)])]"
      "[2, 3]" "Some 1" mixed_rows "\<lambda>n. 0"]
    play_quiz_pool [of "[]" "[]" None mixed_rows "\<lambda>n. 0"]
    play_quiz_pool [of
      "[(''previous_questions'', JList []),
        (''quiz_category'', JObj [(''type'', JStr ''Science''), (''id'', JInt 2147483648)])]"
      "[]" "Some 2147483648" mixed_rows "\<lambda>n. 0"]
  by (simp add: quiz_pool_def mixed_rows_def capital_row_def numbered_def category_is_def
      str_int_def str_nat.simps digit_char_def int4_def)

text \<open>A null body fails under the view's \<^verbatim>\<open>try\<close> (None has no \<^verbatim>\<open>get\<close>): 422.\<close>

lemma play_quiz_no_body: "play_quiz randbelow st JNull = Abort 422"
  by (simp add: play_quiz_def try_except_def)

subsection \<open>Listing the categories\<close>

lemma update_not_Nil: "AList.update k v d \<noteq> []"
  by (cases d) simp_all

lemma fold_update_not_Nil:
  "cs \<noteq> [] \<or> d0 \<noteq> [] \<Longrightarrow> fold (\<lambda>c d. AList.update (f c) (g c) d) cs d0 \<noteq> []"
proof (induction cs arbitrary: d0)
  case Nil
  then show ?case by simp
next
  case (Cons c cs)
  have "AList.update (f c) (g c) d0 \<noteq> []"
    by (rule update_not_Nil)
  then have "fold (\<lambda>c d. AList.update (f c) (g c) d) cs (AList.update (f c) (g c) d0) \<noteq> []"
    using Cons.IH by blast
  then show ?case by simp
qed

lemma categories_dict_Nil_iff: "categories_dict cs = [] \<longleftrightarrow> cs = []"
proof
  assume "categories_dict cs = []"
  then show "cs = []"
    unfolding categories_dict_def
    using fold_update_not_Nil [where cs = cs and ?d0.0 = "[]" and f = "\<lambda>c. str_int (c_id c)"
        and g = "\<lambda>c. JStr (c_type c)"]
    by blast
next
  assume "cs = []"
  then show "categories_dict cs = []"
    by (simp add: categories_dict_def)
qed

text \<open>GET /categories aborts with 404 exactly when there is no category.\<close>

lemma get_categories_not_found:
  "get_categories st = Abort 404 \<longleftrightarrow> categories st = []"
  by (simp add: get_categories_def Let_def categories_dict_Nil_iff sort_key_Nil_iff)

end
